theory Spec2Isabelle
  imports Main "HOL-Library.Word" "HOL-Library.Sublist"
begin

section \<open>Constants and basic types\<close>

text \<open>
  The kernel side of lockc: the BPF programs of \<^verbatim>\<open>lockc.bpf.c\<close> (syslog, mount, setuid
  and open hooks) and the process tracker \<^verbatim>\<open>handle_new_process\<close> of the earlier
  revision of the same file. Verdicts are C \<^verbatim>\<open>int\<close>s; no arithmetic is done on them
  beyond negating an errno, so they are modelled as \<^typ>\<open>int\<close>.
\<close>

type_synonym byte = "8 word"
type_synonym u32 = "32 word"
type_synonym u64 = "64 word"
type_synonym pid_t = "32 word"

definition EPERM :: int where "EPERM = 1"
definition EFAULT :: int where "EFAULT = 14"
definition ENAMETOOLONG :: int where "ENAMETOOLONG = 36"

definition PATH_LEN :: nat where "PATH_LEN = 64"
definition MOUNT_TYPE_LEN :: nat where "MOUNT_TYPE_LEN = 5"

text \<open>The bytes of a string literal, without its terminating NUL.\<close>

definition bytes :: "string \<Rightarrow> byte list" where
  "bytes s = map (\<lambda>c. of_nat (of_char c)) s"

definition MOUNT_TYPE_BIND :: "byte list" where
  "MOUNT_TYPE_BIND = bytes ''bind''"

text \<open>
  \<^verbatim>\<open>unsigned char a[n] = "lit"\<close>: the literal's bytes, the rest of the array zero.
\<close>

definition char_array :: "nat \<Rightarrow> byte list \<Rightarrow> byte list" where
  "char_array n s = take n (s @ replicate n 0)"

text \<open>The C string stored in a byte sequence: the bytes before the first NUL.\<close>

definition cstr :: "byte list \<Rightarrow> byte list" where
  "cstr s = takeWhile (\<lambda>c. c \<noteq> 0) s"

section \<open>Map structures (map\_structs.h, maps.h)\<close>

datatype container_policy_level =
    POLICY_LEVEL_LOOKUP_ERR
  | POLICY_LEVEL_NOT_FOUND
  | POLICY_LEVEL_RESTRICTED
  | POLICY_LEVEL_BASELINE
  | POLICY_LEVEL_PRIVILEGED

record container =
  policy_level :: container_policy_level

record process =
  container_id :: u32

text \<open>\<^verbatim>\<open>struct accessed_path { unsigned char path[PATH_LEN]; }\<close>: the array's bytes.\<close>

type_synonym accessed_path = "byte list"

text \<open>
  The BPF hash maps. \<^verbatim>\<open>containers\<close> and \<^verbatim>\<open>processes\<close> are only looked up and updated by
  key; the path tables are only iterated, so they are kept as the sequence of their
  (key, value) slots in the order the kernel visits them. The handlers name the path
  tables \<^verbatim>\<open>ap_mnt_restr\<close>, \<^verbatim>\<open>ap_mnt_base\<close>, \<^verbatim>\<open>ap_acc_restr\<close>, \<^verbatim>\<open>ap_acc_base\<close>,
  \<^verbatim>\<open>dp_acc_restr\<close>, \<^verbatim>\<open>dp_acc_base\<close>: the allowed (ap) and denied (dp) paths for mount
  (mnt) and access (acc) of restricted and baseline containers, which maps.h declares
  as \<^verbatim>\<open>allowed_paths_mount_restricted\<close>, ..., \<^verbatim>\<open>denied_paths_access_baseline\<close>.
  \<^verbatim>\<open>inodes\<close> and \<^verbatim>\<open>inodes_parents\<close> are used by no program and are left out.
\<close>

record bpf_maps =
  runtimes :: "u32 \<rightharpoonup> u32"
  containers :: "u32 \<rightharpoonup> container"
  processes :: "pid_t \<rightharpoonup> process"
  ap_mnt_restr :: "(u32 \<times> accessed_path) list"
  ap_mnt_base :: "(u32 \<times> accessed_path) list"
  ap_acc_restr :: "(u32 \<times> accessed_path) list"
  ap_acc_base :: "(u32 \<times> accessed_path) list"
  dp_acc_restr :: "(u32 \<times> accessed_path) list"
  dp_acc_base :: "(u32 \<times> accessed_path) list"

section \<open>What the kernel provides\<close>

text \<open>
  The task a hook runs in: the value of \<^verbatim>\<open>bpf_get_current_pid_tgid()\<close> and the return
  value of \<^verbatim>\<open>bpf_get_current_comm()\<close> (0, or a negative errno).
\<close>

record current =
  pid_tgid :: u64
  get_current_comm :: int

text \<open>\<^verbatim>\<open>pid_t pid = bpf_get_current_pid_tgid() >> 32\<close>\<close>

definition current_pid :: "current \<Rightarrow> pid_t" where
  "current_pid cur = ucast (drop_bit 32 (pid_tgid cur))"

text \<open>
  A \<^verbatim>\<open>const char *\<close> handed to a hook: NULL, an address the kernel cannot read, or the
  address of a NUL-terminated string (given by its bytes; the string ends at the first
  NUL, if the bytes hold one).
\<close>

datatype kstring = NULL | Unreadable | Kstr "byte list"

text \<open>
  \<^verbatim>\<open>bpf_probe_read_kernel_str(dst, size, ptr)\<close>: copies the string at \<^verbatim>\<open>ptr\<close> into \<^verbatim>\<open>dst\<close>,
  at most \<^verbatim>\<open>size - 1\<close> bytes of it, and terminates it with NUL; the bytes of \<^verbatim>\<open>dst\<close>
  behind the NUL stay as they were. It returns the length written, the NUL included,
  or a negative errno when the address cannot be read.
\<close>

definition bpf_probe_read_kernel_str ::
  "byte list \<Rightarrow> nat \<Rightarrow> kstring \<Rightarrow> int \<times> byte list" where
  "bpf_probe_read_kernel_str dst sz ptr =
     (case ptr of
        NULL \<Rightarrow> (- EFAULT, dst)
      | Unreadable \<Rightarrow> (- EFAULT, dst)
      | Kstr s \<Rightarrow>
          (let r = take (sz - 1) (cstr s)
           in (int (length r) + 1, r @ [0] @ drop (length r + 1) dst)))"

text \<open>
  \<^verbatim>\<open>struct file\<close>: of a file the open hook only uses \<^verbatim>\<open>f_path\<close>, and of that only the
  absolute path name the kernel renders for it (\<^verbatim>\<open>None\<close> when it cannot render one).
\<close>

record struct_file =
  f_path :: "byte list option"

text \<open>
  \<^verbatim>\<open>bpf_d_path(path, buf, sz)\<close>: renders the path name with its NUL at the end of \<^verbatim>\<open>buf\<close>
  and moves it to the front; it fails when the name and its NUL do not fit in \<^verbatim>\<open>sz\<close>
  bytes. It returns the length, the NUL included, or a negative errno.
\<close>

definition bpf_d_path :: "byte list option \<Rightarrow> byte list \<Rightarrow> nat \<Rightarrow> int \<times> byte list" where
  "bpf_d_path p buf sz =
     (case p of
        None \<Rightarrow> (- EFAULT, buf)
      | Some s \<Rightarrow>
          (let name = cstr s; len = length name + 1
           in if sz < len then (- ENAMETOOLONG, buf)
              else (int len, name @ [0] @ drop len (take (sz - len) buf @ name @ [0]))))"

text \<open>
  \<^verbatim>\<open>bpf_for_each_map_elem(map, callback, ctx, 0)\<close>: calls the callback on every element
  of the map, and stops at the first call that does not return 0. The handlers ignore
  its return value, so the model returns the context only.
\<close>

fun bpf_for_each_map_elem ::
  "('k \<times> 'v) list \<Rightarrow> ('k \<Rightarrow> 'v option \<Rightarrow> 'c \<Rightarrow> u64 \<times> 'c) \<Rightarrow> 'c \<Rightarrow> 'c" where
  "bpf_for_each_map_elem [] cb ctx = ctx"
| "bpf_for_each_map_elem ((k, v) # m) cb ctx =
     (case cb k (Some v) ctx of
        (r, ctx') \<Rightarrow> if r \<noteq> 0 then ctx' else bpf_for_each_map_elem m cb ctx')"

text \<open>
  \<^verbatim>\<open>bpf_map_update_elem(map, key, value, 0)\<close>: stores the row, or rejects it with a
  negative errno (the table is full, no memory). Whether the kernel rejects it is not
  decided by the program: \<^verbatim>\<open>kerr\<close> is the kernel's answer.
\<close>

definition bpf_map_update_elem ::
  "('k \<rightharpoonup> 'v) \<Rightarrow> 'k \<Rightarrow> 'v \<Rightarrow> int \<Rightarrow> int \<times> ('k \<rightharpoonup> 'v)" where
  "bpf_map_update_elem m k v kerr = (if kerr < 0 then (kerr, m) else (0, m(k \<mapsto> v)))"

section \<open>String helpers (strutils.h)\<close>

text \<open>
  Modelled from the spec: \<^verbatim>\<open>strlen(s, max_len)\<close> of strutils.h, which is not among the
  sources. The spec: "the stored entry's effective length (up to first NUL, bounded by
  PATH\_LEN)".
\<close>

definition strlen :: "byte list \<Rightarrow> nat \<Rightarrow> nat" where
  "strlen s max_len = length (cstr (take max_len s))"

text \<open>
  Modelled from the spec: \<^verbatim>\<open>strcmp(s1, s2, n)\<close> of strutils.h, which is not among the
  sources. The spec: a "byte-for-byte" comparison of the first \<^verbatim>\<open>n\<close> bytes ("E is a
  byte-prefix of P up to the stored length of E"). The callers only test the result
  against 0, and the spec fixes no other value: 1 stands for "different".
\<close>

definition strcmp :: "byte list \<Rightarrow> byte list \<Rightarrow> nat \<Rightarrow> int" where
  "strcmp s1 s2 n = (if take n s1 = take n s2 then 0 else 1)"

text \<open>The string a path table entry stores: its bytes before the first NUL, 64 at most.\<close>

definition entry_string :: "accessed_path \<Rightarrow> byte list" where
  "entry_string e = cstr (take PATH_LEN e)"

section \<open>Policy resolver\<close>

definition get_policy_level :: "bpf_maps \<Rightarrow> pid_t \<Rightarrow> container_policy_level" where
  "get_policy_level maps p =
     (case processes maps p of
        None \<Rightarrow> POLICY_LEVEL_NOT_FOUND
      | Some pr \<Rightarrow>
          (case containers maps (container_id pr) of
             None \<Rightarrow> POLICY_LEVEL_LOOKUP_ERR
           | Some c \<Rightarrow> policy_level c))"

text \<open>
  The label \<^verbatim>\<open>out:\<close> that ends every hook:
  \<^verbatim>\<open>if (ret_prev != 0) return ret_prev; return ret;\<close>
\<close>

definition out :: "int \<Rightarrow> int \<Rightarrow> int" where
  "out ret_prev ret = (if ret_prev \<noteq> 0 then ret_prev else ret)"

section \<open>syslog hook\<close>

definition syslog_audit :: "bpf_maps \<Rightarrow> current \<Rightarrow> int \<Rightarrow> int \<Rightarrow> int" where
  "syslog_audit maps cur type ret_prev =
     out ret_prev
       (case get_policy_level maps (current_pid cur) of
          POLICY_LEVEL_LOOKUP_ERR \<Rightarrow> - EPERM
        | POLICY_LEVEL_NOT_FOUND \<Rightarrow> 0
        | POLICY_LEVEL_RESTRICTED \<Rightarrow> - EPERM
        | POLICY_LEVEL_BASELINE \<Rightarrow> - EPERM
        | POLICY_LEVEL_PRIVILEGED \<Rightarrow> 0)"

section \<open>Path matcher\<close>

record paths_callback_ctx =
  path :: "byte list"
  found :: bool

definition check_paths ::
  "u32 \<Rightarrow> accessed_path option \<Rightarrow> paths_callback_ctx \<Rightarrow> u64 \<times> paths_callback_ctx" where
  "check_paths key allowed_path data =
     (case allowed_path of
        None \<Rightarrow> (0, data)
      | Some ap \<Rightarrow>
          (let allowed_path_len = strlen ap PATH_LEN
           in if allowed_path_len < 1 then (0, data)
              else if strcmp ap (path data) allowed_path_len = 0
                   then (1, data\<lparr>found := True\<rparr>)
                   else (0, data)))"

section \<open>mount hook\<close>

text \<open>
  \<^verbatim>\<open>mount_policy\<close> is the code of \<^verbatim>\<open>mount_audit\<close> behind its first switch, which only
  restricted and baseline tasks reach; its value is \<^verbatim>\<open>ret\<close> at the label \<^verbatim>\<open>out\<close>.
  \<^verbatim>\<open>type_safe\<close> and \<^verbatim>\<open>dev_name_safe\<close> are locals without an initialiser: what they hold
  when the hook starts is an input. In the second switch the misspelt \<^verbatim>\<open>defaut:\<close> is a
  plain label, so a level without a case leaves the switch and is denied.
\<close>

definition mount_policy ::
  "bpf_maps \<Rightarrow> container_policy_level \<Rightarrow> byte list \<Rightarrow> byte list \<Rightarrow> kstring \<Rightarrow> kstring \<Rightarrow> int" where
  "mount_policy maps level type_safe dev_name_safe dev_name type =
     (let type_bind = char_array MOUNT_TYPE_LEN MOUNT_TYPE_BIND
      in if type = NULL then 0
         else case bpf_probe_read_kernel_str type_safe MOUNT_TYPE_LEN type of
           (n, type_safe') \<Rightarrow>
             if n < 0 then - EFAULT
             else if strcmp type_safe' type_bind MOUNT_TYPE_LEN \<noteq> 0 then 0
             else if dev_name = NULL then - EFAULT
             else case bpf_probe_read_kernel_str dev_name_safe PATH_LEN dev_name of
               (m, dev_name_safe') \<Rightarrow>
                 if m < 0 then - EFAULT
                 else
                   (let cb = \<lparr>path = dev_name_safe', found = False\<rparr>
                    in case level of
                         POLICY_LEVEL_RESTRICTED \<Rightarrow>
                           if found (bpf_for_each_map_elem (ap_mnt_restr maps) check_paths cb)
                           then 0 else - EPERM
                       | POLICY_LEVEL_BASELINE \<Rightarrow>
                           if found (bpf_for_each_map_elem (ap_mnt_base maps) check_paths cb)
                           then 0 else - EPERM
                       | _ \<Rightarrow> - EPERM))"

definition mount_ret ::
  "bpf_maps \<Rightarrow> current \<Rightarrow> byte list \<Rightarrow> byte list \<Rightarrow> kstring \<Rightarrow> kstring \<Rightarrow> int" where
  "mount_ret maps cur type_safe dev_name_safe dev_name type =
     (let level = get_policy_level maps (current_pid cur)
      in case level of
           POLICY_LEVEL_LOOKUP_ERR \<Rightarrow> - EPERM
         | POLICY_LEVEL_NOT_FOUND \<Rightarrow> 0
         | POLICY_LEVEL_RESTRICTED \<Rightarrow>
             mount_policy maps level type_safe dev_name_safe dev_name type
         | POLICY_LEVEL_BASELINE \<Rightarrow>
             mount_policy maps level type_safe dev_name_safe dev_name type
         | POLICY_LEVEL_PRIVILEGED \<Rightarrow> 0)"

text \<open>
  The hook's \<^verbatim>\<open>path\<close>, \<^verbatim>\<open>flags\<close> and \<^verbatim>\<open>data\<close> arguments are not used by its body and are
  left out.
\<close>

definition mount_audit ::
  "bpf_maps \<Rightarrow> current \<Rightarrow> byte list \<Rightarrow> byte list \<Rightarrow> kstring \<Rightarrow> kstring \<Rightarrow> int \<Rightarrow> int" where
  "mount_audit maps cur type_safe dev_name_safe dev_name type ret_prev =
     out ret_prev (mount_ret maps cur type_safe dev_name_safe dev_name type)"

section \<open>setuid hook\<close>

record cred =
  uid :: u32

text \<open>
  The read of the command name comes first and returns on its own, not through \<^verbatim>\<open>out\<close>.
\<close>

definition setuid_ret :: "bpf_maps \<Rightarrow> current \<Rightarrow> cred \<Rightarrow> cred \<Rightarrow> int" where
  "setuid_ret maps cur new old =
     (let uid_old = uid old; uid_new = uid new
      in case get_policy_level maps (current_pid cur) of
           POLICY_LEVEL_LOOKUP_ERR \<Rightarrow> - EPERM
         | POLICY_LEVEL_NOT_FOUND \<Rightarrow> 0
         | POLICY_LEVEL_RESTRICTED \<Rightarrow> if uid_new = 0 \<and> 1000 \<le> uid_old then - EPERM else 0
         | POLICY_LEVEL_BASELINE \<Rightarrow> if uid_new = 0 \<and> 1000 \<le> uid_old then - EPERM else 0
         | POLICY_LEVEL_PRIVILEGED \<Rightarrow> 0)"

definition setuid_audit :: "bpf_maps \<Rightarrow> current \<Rightarrow> cred \<Rightarrow> cred \<Rightarrow> int \<Rightarrow> int \<Rightarrow> int" where
  "setuid_audit maps cur new old flags ret_prev =
     (if get_current_comm cur < 0 then - EFAULT
      else out ret_prev (setuid_ret maps cur new old))"

section \<open>open hook\<close>

text \<open>
  \<^verbatim>\<open>open_policy\<close> is the code of \<^verbatim>\<open>open_audit\<close> behind its first switch; its value is
  \<^verbatim>\<open>ret\<close> at the label \<^verbatim>\<open>out\<close>. The restricted arm iterates \<^verbatim>\<open>ap_acc_restr\<close> both times,
  as the source does.
\<close>

text \<open>The literal \<^verbatim>\<open>"/\0"\<close>: its two bytes and the NUL that ends every literal.\<close>

definition root_literal :: "byte list" where
  "root_literal = bytes ''/'' @ [0, 0]"

definition open_policy :: "bpf_maps \<Rightarrow> container_policy_level \<Rightarrow> struct_file \<Rightarrow> int" where
  "open_policy maps level f =
     (case bpf_d_path (f_path f) (replicate PATH_LEN 0) PATH_LEN of
        (n, d_path_buf) \<Rightarrow>
          if n < 0 then 0
          else if strcmp d_path_buf root_literal 2 = 0 then 0
          else
            (let cb = \<lparr>path = d_path_buf, found = False\<rparr>
             in case level of
                  POLICY_LEVEL_RESTRICTED \<Rightarrow>
                    (let cb1 = bpf_for_each_map_elem (ap_acc_restr maps) check_paths cb
                     in if found cb1 then - EPERM
                        else
                          (let cb2 = bpf_for_each_map_elem (ap_acc_restr maps) check_paths
                                       (cb1\<lparr>found := False\<rparr>)
                           in if found cb2 then 0 else - EPERM))
                | POLICY_LEVEL_BASELINE \<Rightarrow>
                    (let cb1 = bpf_for_each_map_elem (dp_acc_base maps) check_paths cb
                     in if found cb1 then - EPERM
                        else
                          (let cb2 = bpf_for_each_map_elem (ap_acc_base maps) check_paths
                                       (cb1\<lparr>found := False\<rparr>)
                           in if found cb2 then 0 else - EPERM))
                | _ \<Rightarrow> - EPERM))"

definition open_ret :: "bpf_maps \<Rightarrow> current \<Rightarrow> struct_file \<Rightarrow> int" where
  "open_ret maps cur f =
     (let level = get_policy_level maps (current_pid cur)
      in case level of
           POLICY_LEVEL_LOOKUP_ERR \<Rightarrow> - EPERM
         | POLICY_LEVEL_NOT_FOUND \<Rightarrow> 0
         | POLICY_LEVEL_RESTRICTED \<Rightarrow> open_policy maps level f
         | POLICY_LEVEL_BASELINE \<Rightarrow> open_policy maps level f
         | POLICY_LEVEL_PRIVILEGED \<Rightarrow> 0)"

definition open_audit :: "bpf_maps \<Rightarrow> current \<Rightarrow> struct_file \<Rightarrow> int \<Rightarrow> int" where
  "open_audit maps cur f ret_prev = out ret_prev (open_ret maps cur f)"

section \<open>Process tracker\<close>

record task_struct =
  task_pid :: pid_t

text \<open>
  \<^verbatim>\<open>handle_new_process(parent, child)\<close> returns its result and the maps as it leaves
  them. \<^verbatim>\<open>kerr\<close> is the kernel's answer to the one insert it may attempt.
\<close>

definition handle_new_process ::
  "bpf_maps \<Rightarrow> int \<Rightarrow> task_struct \<Rightarrow> task_struct \<Rightarrow> int \<times> bpf_maps" where
  "handle_new_process maps kerr parent child =
     (let cpid = task_pid child; ppid = task_pid parent
      in case processes maps ppid of
           None \<Rightarrow> (0, maps)
         | Some parent_lookup \<Rightarrow>
             (case processes maps cpid of
                Some v \<Rightarrow> (0, maps)
              | None \<Rightarrow>
                  (let cid = container_id parent_lookup
                   in case containers maps cid of
                        None \<Rightarrow> (- EPERM, maps)
                      | Some container_lookup \<Rightarrow>
                          (case bpf_map_update_elem (processes maps) cpid
                                  \<lparr>container_id = cid\<rparr> kerr of
                             (err, procs) \<Rightarrow>
                               if err < 0 then (err, maps\<lparr>processes := procs\<rparr>)
                               else (0, maps\<lparr>processes := procs\<rparr>)))))"

section \<open>Example states\<close>

text \<open>
  The states the closed theorems below are evaluated at: no table holds a row; one
  container \<^verbatim>\<open>cid\<close> of a given level with one registered process \<^verbatim>\<open>p\<close>; and a path
  table entry that fills all 64 bytes, so that it holds no NUL.
\<close>

definition empty_maps :: bpf_maps where
  "empty_maps = \<lparr>runtimes = Map.empty, containers = Map.empty, processes = Map.empty,
     ap_mnt_restr = [], ap_mnt_base = [], ap_acc_restr = [], ap_acc_base = [],
     dp_acc_restr = [], dp_acc_base = []\<rparr>"

definition one_container :: "u32 \<Rightarrow> container_policy_level \<Rightarrow> pid_t \<Rightarrow> bpf_maps" where
  "one_container cid level p =
     empty_maps\<lparr>containers := [cid \<mapsto> \<lparr>policy_level = level\<rparr>],
                processes := [p \<mapsto> \<lparr>container_id = cid\<rparr>]\<rparr>"

text \<open>The task with pid 300 (thread id 300), whose command name can be read.\<close>

definition task300 :: current where
  "task300 = \<lparr>pid_tgid = 0x12C0000012C, get_current_comm = 0\<rparr>"


section \<open>The path matcher\<close>

lemma strlen_entry: "strlen e PATH_LEN = length (entry_string e)"
  by (simp add: strlen_def entry_string_def)

lemma take_strlen: "take (strlen e n) e = cstr (take n e)"
proof -
  let ?w = "cstr (take n e)"
  have "?w = take (length ?w) (take n e)"
    unfolding cstr_def by (rule takeWhile_eq_take)
  also have "\<dots> = take (length ?w) e"
  proof -
    have "length ?w \<le> n"
      unfolding cstr_def using length_takeWhile_le [of _ "take n e"]
      by (metis le_trans length_take min.cobounded2)
    then show ?thesis by (simp add: min_absorb1)
  qed
  finally show ?thesis by (simp add: strlen_def)
qed

lemma cstr_no_nul: "0 \<notin> set (cstr s)"
  unfolding cstr_def by (metis (mono_tags, lifting) set_takeWhileD)

lemma check_paths_Some:
  "check_paths k (Some e) d =
     (if 1 \<le> strlen e PATH_LEN \<and>
         take (strlen e PATH_LEN) e = take (strlen e PATH_LEN) (path d)
      then (1, d\<lparr>found := True\<rparr>) else (0, d))"
  by (simp add: check_paths_def Let_def strcmp_def not_less Suc_le_eq)

lemma for_each_path:
  "path (bpf_for_each_map_elem T check_paths d) = path d"
  by (induction T arbitrary: d) (auto simp: check_paths_Some)

lemma for_each_found:
  "found (bpf_for_each_map_elem T check_paths d) \<longleftrightarrow>
     found d \<or> (\<exists>(k, e) \<in> set T. 1 \<le> strlen e PATH_LEN \<and>
        take (strlen e PATH_LEN) e = take (strlen e PATH_LEN) (path d))"
proof (induction T arbitrary: d)
  case Nil
  show ?case by simp
next
  case (Cons a T)
  obtain k e where a: "a = (k, e)" by (cases a)
  show ?case
    unfolding a by (auto simp: check_paths_Some Cons.IH)
qed

text \<open>
  C6. The path matcher (the iteration of \<^verbatim>\<open>check_paths\<close> over a table, started with
  \<^verbatim>\<open>found = false\<close>) finds a match exactly when the table has an entry whose effective
  length (the bytes before its first NUL, 64 at most) is at least 1 and whose bytes up
  to that length are the probe's bytes up to that length. An entry that starts with
  NUL, and so the all-NUL entry, never matches: the callback returns 0 on it and
  leaves the context as it was.
\<close>

theorem path_matcher_prefix_law:
  "(found (bpf_for_each_map_elem T check_paths \<lparr>path = P, found = False\<rparr>) \<longleftrightarrow>
      (\<exists>(k, e) \<in> set T. 1 \<le> strlen e PATH_LEN \<and>
         take (strlen e PATH_LEN) e = take (strlen e PATH_LEN) P))
   \<and> check_paths key (Some (0 # rest)) d = (0, d)
   \<and> check_paths key (Some (replicate PATH_LEN 0)) d = (0, d)"
proof -
  have "strlen (0 # rest) PATH_LEN = 0"
    by (simp add: strlen_def cstr_def PATH_LEN_def)
  moreover have "strlen (replicate PATH_LEN 0) PATH_LEN = 0"
    by (simp add: strlen_def cstr_def PATH_LEN_def)
  ultimately show ?thesis
    by (simp add: for_each_found check_paths_Some)
qed

text \<open>
  The handlers match against a buffer that holds a C string: the string \<^verbatim>\<open>p\<close>, its NUL,
  and whatever lies behind. Against such a buffer an entry matches exactly when the
  string it stores is not empty and is a prefix of \<^verbatim>\<open>p\<close>.
\<close>

lemma entry_match_buffer:
  assumes p: "0 \<notin> set p"
  shows "(1 \<le> strlen e PATH_LEN \<and>
          take (strlen e PATH_LEN) e = take (strlen e PATH_LEN) (p @ 0 # tail))
         \<longleftrightarrow> (entry_string e \<noteq> [] \<and> prefix (entry_string e) p)"
proof -
  let ?w = "entry_string e"
  have len: "strlen e PATH_LEN = length ?w" by (rule strlen_entry)
  have tk: "take (length ?w) e = ?w"
    using take_strlen [of e PATH_LEN] by (simp add: len entry_string_def)
  have w0: "0 \<notin> set ?w" by (simp add: entry_string_def cstr_no_nul)
  have "?w = take (length ?w) (p @ 0 # tail) \<longleftrightarrow> prefix ?w p"
  proof
    assume eq: "?w = take (length ?w) (p @ 0 # tail)"
    show "prefix ?w p"
    proof (cases "length ?w \<le> length p")
      case True
      with eq have "?w = take (length ?w) p" by simp
      then show ?thesis by (metis take_is_prefix)
    next
      case False
      then have "take (length ?w) (p @ 0 # tail)
          = p @ 0 # take (length ?w - length p - 1) tail"
        by (simp add: take_Cons')
      with eq have "0 \<in> set ?w" by (metis in_set_conv_decomp)
      with w0 show ?thesis by contradiction
    qed
  next
    assume "prefix ?w p"
    then obtain r where "p = ?w @ r" by (auto simp: prefix_def)
    then show "?w = take (length ?w) (p @ 0 # tail)" by simp
  qed
  moreover have "1 \<le> length ?w \<longleftrightarrow> ?w \<noteq> []"
    by (cases ?w) simp_all
  ultimately show ?thesis by (simp add: len tk)
qed

lemma matcher_on_string:
  assumes "0 \<notin> set p"
  shows "found (bpf_for_each_map_elem T check_paths \<lparr>path = p @ 0 # tail, found = False\<rparr>)
         \<longleftrightarrow> (\<exists>(k, e) \<in> set T. entry_string e \<noteq> [] \<and> prefix (entry_string e) p)"
  unfolding for_each_found
  by (simp only: paths_callback_ctx.select_convs entry_match_buffer [OF assms] simp_thms)

section \<open>The mount hook\<close>

lemma read_Kstr:
  "bpf_probe_read_kernel_str dst sz (Kstr s) =
     (int (length (take (sz - 1) (cstr s))) + 1,
      take (sz - 1) (cstr s) @ 0 # drop (Suc (length (take (sz - 1) (cstr s)))) dst)"
  by (simp add: bpf_probe_read_kernel_str_def Let_def)

lemma read_Unreadable: "bpf_probe_read_kernel_str dst sz Unreadable = (- EFAULT, dst)"
  by (simp add: bpf_probe_read_kernel_str_def)

lemma bind_bytes: "bytes ''bind'' = [98, 105, 110, 100]"
  by (simp add: bytes_def)


lemma type_bind_array: "char_array MOUNT_TYPE_LEN MOUNT_TYPE_BIND = [98, 105, 110, 100, 0]"
  by (simp add: char_array_def MOUNT_TYPE_LEN_def MOUNT_TYPE_BIND_def bind_bytes)

lemma short_list_cases:
  assumes "length (r :: 'a list) \<le> 4"
  obtains "r = []" | a where "r = [a]" | a b where "r = [a, b]"
    | a b c where "r = [a, b, c]" | a b c d where "r = [a, b, c, d]"
proof (cases r)
  case Nil then show ?thesis using that by blast
next
  case (Cons a r1)
  show ?thesis
  proof (cases r1)
    case Nil with Cons show ?thesis using that by blast
  next
    case (Cons b r2)
    note c2 = this
    show ?thesis
    proof (cases r2)
      case Nil with c2 \<open>r = a # r1\<close> show ?thesis using that by blast
    next
      case (Cons c r3)
      note c3 = this
      show ?thesis
      proof (cases r3)
        case Nil with c2 c3 \<open>r = a # r1\<close> show ?thesis using that by blast
      next
        case (Cons d r4)
        with c2 c3 \<open>r = a # r1\<close> assms have "r4 = []" by simp
        with Cons c2 c3 \<open>r = a # r1\<close> show ?thesis using that by blast
      qed
    qed
  qed
qed

text \<open>
  The 5-byte buffer holds at most the first four bytes of the type: the comparison
  with \<^verbatim>\<open>"bind"\<close> succeeds exactly when those are \<^verbatim>\<open>bind\<close>, whatever the buffer held
  before.
\<close>

lemma type_read_is_bind:
  "strcmp (snd (bpf_probe_read_kernel_str ts MOUNT_TYPE_LEN (Kstr t)))
      (char_array MOUNT_TYPE_LEN MOUNT_TYPE_BIND) MOUNT_TYPE_LEN = 0
   \<longleftrightarrow> take 4 (cstr t) = bytes ''bind''"
proof -
  let ?r = "take 4 (cstr t)"
  have len: "length ?r \<le> 4" by simp
  have r0: "0 \<notin> set ?r" using cstr_no_nul [of t] by (metis in_set_takeD)
  have "take 5 (?r @ 0 # drop (Suc (length ?r)) ts) = [98, 105, 110, 100, 0]
        \<longleftrightarrow> ?r = [98, 105, 110, 100]"
    using len r0 by (cases ?r rule: short_list_cases) auto
  then show ?thesis
    unfolding type_bind_array
    by (simp add: bpf_probe_read_kernel_str_def Let_def strcmp_def
        bind_bytes MOUNT_TYPE_LEN_def)
qed

lemma mount_policy_null: "mount_policy maps level ts ds dev_name NULL = 0"
  by (simp add: mount_policy_def)

lemma mount_policy_Kstr:
  "mount_policy maps level ts ds dev_name (Kstr t) =
     (if take 4 (cstr t) \<noteq> bytes ''bind'' then 0
      else case dev_name of
        NULL \<Rightarrow> - EFAULT
      | Unreadable \<Rightarrow> - EFAULT
      | Kstr d \<Rightarrow>
         (case level of
            POLICY_LEVEL_RESTRICTED \<Rightarrow>
              if (\<exists>(k, e) \<in> set (ap_mnt_restr maps). entry_string e \<noteq> [] \<and>
                    prefix (entry_string e) (take (PATH_LEN - 1) (cstr d)))
              then 0 else - EPERM
          | POLICY_LEVEL_BASELINE \<Rightarrow>
              if (\<exists>(k, e) \<in> set (ap_mnt_base maps). entry_string e \<noteq> [] \<and>
                    prefix (entry_string e) (take (PATH_LEN - 1) (cstr d)))
              then 0 else - EPERM
          | _ \<Rightarrow> - EPERM))"
proof -
  define n where "n = fst (bpf_probe_read_kernel_str ts MOUNT_TYPE_LEN (Kstr t))"
  define tb where "tb = snd (bpf_probe_read_kernel_str ts MOUNT_TYPE_LEN (Kstr t))"
  have r1: "bpf_probe_read_kernel_str ts MOUNT_TYPE_LEN (Kstr t) = (n, tb)"
    by (simp add: n_def tb_def)
  have n: "\<not> n < 0" by (simp add: n_def read_Kstr)
  have bind: "strcmp tb (char_array MOUNT_TYPE_LEN MOUNT_TYPE_BIND) MOUNT_TYPE_LEN = 0
      \<longleftrightarrow> take 4 (cstr t) = bytes ''bind''"
    unfolding tb_def by (rule type_read_is_bind)
  show ?thesis
  proof (cases dev_name)
    case NULL
    then show ?thesis by (simp add: mount_policy_def r1 n bind)
  next
    case Unreadable
    then show ?thesis
      by (simp add: mount_policy_def r1 n bind read_Unreadable EFAULT_def)
  next
    case (Kstr d)
    define p where "p = take (PATH_LEN - 1) (cstr d)"
    define m where "m = fst (bpf_probe_read_kernel_str ds PATH_LEN (Kstr d))"
    define db where "db = snd (bpf_probe_read_kernel_str ds PATH_LEN (Kstr d))"
    have r2: "bpf_probe_read_kernel_str ds PATH_LEN (Kstr d) = (m, db)"
      by (simp add: m_def db_def)
    have m: "\<not> m < 0" by (simp add: m_def read_Kstr)
    have p0: "0 \<notin> set p"
      unfolding p_def using cstr_no_nul [of d] by (metis in_set_takeD)
    have db: "db = p @ 0 # drop (Suc (length p)) ds"
      unfolding db_def p_def read_Kstr by simp
    have match: "found (bpf_for_each_map_elem T check_paths \<lparr>path = db, found = False\<rparr>)
         \<longleftrightarrow> (\<exists>(k, e) \<in> set T. entry_string e \<noteq> [] \<and> prefix (entry_string e) p)" for T
      unfolding db by (rule matcher_on_string [OF p0])
    have "mount_policy maps level ts ds (Kstr d) (Kstr t) =
       (if take 4 (cstr t) \<noteq> bytes ''bind'' then 0
        else case level of
            POLICY_LEVEL_RESTRICTED \<Rightarrow>
              if (\<exists>(k, e) \<in> set (ap_mnt_restr maps). entry_string e \<noteq> [] \<and>
                    prefix (entry_string e) p)
              then 0 else - EPERM
          | POLICY_LEVEL_BASELINE \<Rightarrow>
              if (\<exists>(k, e) \<in> set (ap_mnt_base maps). entry_string e \<noteq> [] \<and>
                    prefix (entry_string e) p)
              then 0 else - EPERM
          | _ \<Rightarrow> - EPERM)"
      by (simp add: mount_policy_def r1 r2 n m bind match
          split: container_policy_level.splits)
    then show ?thesis
      unfolding Kstr p_def by simp
  qed
qed

lemma level300:
  "get_policy_level (one_container 3 lv 300) (current_pid task300) = lv"
  "get_policy_level (one_container 3 lv 300\<lparr>ap_mnt_restr := T\<rparr>) (current_pid task300) = lv"
  by (simp_all add: get_policy_level_def one_container_def empty_maps_def current_pid_def
      task300_def)




text \<open>
  The type of a mount by a restricted or baseline task: a NULL type is allowed, and so
  is a readable type whose first four bytes are not \<^verbatim>\<open>bind\<close>, whatever \<^verbatim>\<open>dev_name\<close> and
  the path tables are. By \<^verbatim>\<open>mount_policy_Kstr\<close> every readable type that begins with
  \<^verbatim>\<open>bind\<close> is policed as a bind mount.
\<close>

lemma mount_type_not_bind:
  assumes "get_policy_level maps (current_pid cur) = POLICY_LEVEL_RESTRICTED
           \<or> get_policy_level maps (current_pid cur) = POLICY_LEVEL_BASELINE"
  shows "(take 4 (cstr t) \<noteq> bytes ''bind'' \<longrightarrow>
            mount_audit maps cur ts ds dev_name (Kstr t) ret_prev = out ret_prev 0)
         \<and> mount_audit maps cur ts ds dev_name NULL ret_prev = out ret_prev 0"
  using assms
  by (auto simp: mount_audit_def mount_ret_def mount_policy_Kstr mount_policy_null)

text \<open>
  C5 does not hold of the code. A restricted task (pid 300) mounts with the type
  \<^verbatim>\<open>bindfs\<close>, which is not exactly \<^verbatim>\<open>bind\<close>, so C5 gives 0. Of \<^verbatim>\<open>bindfs\<close> the 5-byte buffer
  holds \<^verbatim>\<open>bind\<close> and its NUL, the comparison over 5 bytes with \<^verbatim>\<open>"bind"\<close> succeeds, and
  the mount is policed as a bind mount: with an empty allowlist the hook returns
  \<^verbatim>\<open>-EPERM\<close>.
\<close>

theorem mount_bindfs_policed:
  "cstr (bytes ''bindfs'') \<noteq> bytes ''bind''
   \<and> get_policy_level (one_container 3 POLICY_LEVEL_RESTRICTED 300) (current_pid task300)
       = POLICY_LEVEL_RESTRICTED
   \<and> mount_audit (one_container 3 POLICY_LEVEL_RESTRICTED 300) task300
     (replicate 5 255) (replicate 64 255) (Kstr (bytes ''/root/secret'')) (Kstr (bytes ''bindfs'')) 0
     = - EPERM"
proof -
  have t: "take 4 (cstr (bytes ''bindfs'')) = bytes ''bind''"
    by (simp add: bytes_def cstr_def)
  have "mount_policy (one_container 3 POLICY_LEVEL_RESTRICTED 300) POLICY_LEVEL_RESTRICTED
     (replicate 5 255) (replicate 64 255) (Kstr (bytes ''/root/secret''))
     (Kstr (bytes ''bindfs'')) = - EPERM"
    unfolding mount_policy_Kstr by (simp add: t one_container_def empty_maps_def)
  then show ?thesis
    by (simp add: level300 mount_audit_def mount_ret_def out_def bytes_def cstr_def EPERM_def)
qed

section \<open>The open hook\<close>

lemma d_path_None: "bpf_d_path None buf sz = (- EFAULT, buf)"
  by (simp add: bpf_d_path_def)

lemma d_path_Some:
  "bpf_d_path (Some s) buf sz =
     (if sz < length (cstr s) + 1 then (- ENAMETOOLONG, buf)
      else (int (length (cstr s)) + 1,
            cstr s @ 0 # drop (length (cstr s) + 1)
                           (take (sz - (length (cstr s) + 1)) buf @ cstr s @ [0])))"
  by (simp add: bpf_d_path_def Let_def)

text \<open>The comparison with \<^verbatim>\<open>"/\0"\<close> over two bytes succeeds for the path \<^verbatim>\<open>/\<close> only.\<close>

lemma root_check:
  assumes "0 \<notin> set p"
  shows "strcmp (p @ 0 # tail) root_literal 2 = 0 \<longleftrightarrow> p = bytes ''/''"
proof (cases p)
  case Nil
  then show ?thesis by (simp add: strcmp_def bytes_def root_literal_def)
next
  case (Cons a q)
  show ?thesis
  proof (cases q)
    case Nil
    with Cons show ?thesis by (simp add: strcmp_def bytes_def root_literal_def)
  next
    case (Cons b r)
    with \<open>p = a # q\<close> assms have "b \<noteq> 0" by auto
    with Cons \<open>p = a # q\<close> show ?thesis by (simp add: strcmp_def bytes_def root_literal_def)
  qed
qed

text \<open>
  The second iteration starts from \<^verbatim>\<open>found = false\<close> and the same probe, whatever the
  first one went over.
\<close>

lemma second_pass:
  "found (bpf_for_each_map_elem T check_paths
            ((bpf_for_each_map_elem T' check_paths d)\<lparr>found := False\<rparr>))
   \<longleftrightarrow> found (bpf_for_each_map_elem T check_paths (d\<lparr>found := False\<rparr>))"
  by (simp add: for_each_found for_each_path)

text \<open>
  What the open hook decides for a restricted or baseline task. In the restricted arm
  both iterations go over \<^verbatim>\<open>ap_acc_restr\<close>: a match of the first denies, and without
  one the second finds none either, so every path but \<^verbatim>\<open>/\<close> is denied and no table
  has a say.
\<close>

lemma open_policy_eq:
  "open_policy maps level f =
     (case f_path f of
        None \<Rightarrow> 0
      | Some s \<Rightarrow>
          if PATH_LEN \<le> length (cstr s) then 0
          else if cstr s = bytes ''/'' then 0
          else case level of
              POLICY_LEVEL_RESTRICTED \<Rightarrow> - EPERM
            | POLICY_LEVEL_BASELINE \<Rightarrow>
                if (\<exists>(k, e) \<in> set (dp_acc_base maps). entry_string e \<noteq> [] \<and>
                      prefix (entry_string e) (cstr s))
                then - EPERM
                else if (\<exists>(k, e) \<in> set (ap_acc_base maps). entry_string e \<noteq> [] \<and>
                      prefix (entry_string e) (cstr s))
                then 0 else - EPERM
            | _ \<Rightarrow> - EPERM)"
proof (cases "f_path f")
  case None
  then show ?thesis by (simp add: open_policy_def d_path_None EFAULT_def)
next
  case (Some s)
  show ?thesis
  proof (cases "PATH_LEN \<le> length (cstr s)")
    case True
    then have "bpf_d_path (Some s) (replicate PATH_LEN 0) PATH_LEN
        = (- ENAMETOOLONG, replicate PATH_LEN 0)"
      by (simp add: d_path_Some)
    with Some True show ?thesis by (simp add: open_policy_def ENAMETOOLONG_def)
  next
    case False
    define p where "p = cstr s"
    define n where "n = fst (bpf_d_path (Some s) (replicate PATH_LEN 0) PATH_LEN)"
    define db where "db = snd (bpf_d_path (Some s) (replicate PATH_LEN 0) PATH_LEN)"
    have r: "bpf_d_path (Some s) (replicate PATH_LEN 0) PATH_LEN = (n, db)"
      by (simp add: n_def db_def)
    have n: "\<not> n < 0" using False by (simp add: n_def d_path_Some)
    have p0: "0 \<notin> set p" unfolding p_def by (rule cstr_no_nul)
    obtain tail where db: "db = p @ 0 # tail"
      using False by (simp add: db_def d_path_Some p_def)
    have root: "strcmp db root_literal 2 = 0 \<longleftrightarrow> p = bytes ''/''"
      unfolding db by (rule root_check [OF p0])
    have match: "found (bpf_for_each_map_elem T check_paths \<lparr>path = db, found = False\<rparr>)
         \<longleftrightarrow> (\<exists>(k, e) \<in> set T. entry_string e \<noteq> [] \<and> prefix (entry_string e) p)" for T
      unfolding db by (rule matcher_on_string [OF p0])
    have "open_policy maps level f =
       (if p = bytes ''/'' then 0
        else case level of
              POLICY_LEVEL_RESTRICTED \<Rightarrow> - EPERM
            | POLICY_LEVEL_BASELINE \<Rightarrow>
                if (\<exists>(k, e) \<in> set (dp_acc_base maps). entry_string e \<noteq> [] \<and>
                      prefix (entry_string e) p)
                then - EPERM
                else if (\<exists>(k, e) \<in> set (ap_acc_base maps). entry_string e \<noteq> [] \<and>
                      prefix (entry_string e) p)
                then 0 else - EPERM
            | _ \<Rightarrow> - EPERM)"
      by (simp add: open_policy_def Some r n root second_pass match Let_def
          split: container_policy_level.splits)
    then show ?thesis unfolding p_def by (simp add: Some False)
  qed
qed

lemma open_restricted:
  "get_policy_level maps (current_pid cur) = POLICY_LEVEL_RESTRICTED \<Longrightarrow>
   open_audit maps cur f ret_prev =
     out ret_prev
       (case f_path f of
          None \<Rightarrow> 0
        | Some s \<Rightarrow>
            if PATH_LEN \<le> length (cstr s) then 0
            else if cstr s = bytes ''/'' then 0 else - EPERM)"
  by (simp add: open_audit_def open_ret_def open_policy_eq split: option.splits)

text \<open>
  C1 does not hold of the code. A restricted task (pid 600) opens \<^verbatim>\<open>/tmp/x\<close>; the
  restricted deny list is empty and the restricted allow list holds \<^verbatim>\<open>/tmp\<close>, a prefix
  of the path, so C1 gives 0. The hook returns \<^verbatim>\<open>-EPERM\<close>: its first iteration, the one
  that denies, goes over the allow list.
\<close>

theorem open_restricted_allowed_path_denied:
  "get_policy_level
     (one_container 6 POLICY_LEVEL_RESTRICTED 600
        \<lparr>ap_acc_restr := [(0, char_array PATH_LEN (bytes ''/tmp''))]\<rparr>)
     (current_pid \<lparr>pid_tgid = 0x25800000258, get_current_comm = 0\<rparr>)
     = POLICY_LEVEL_RESTRICTED
   \<and> dp_acc_restr (one_container 6 POLICY_LEVEL_RESTRICTED 600
        \<lparr>ap_acc_restr := [(0, char_array PATH_LEN (bytes ''/tmp''))]\<rparr>) = []
   \<and> prefix (entry_string (char_array PATH_LEN (bytes ''/tmp''))) (bytes ''/tmp/x'')
   \<and> open_audit
     (one_container 6 POLICY_LEVEL_RESTRICTED 600
        \<lparr>ap_acc_restr := [(0, char_array PATH_LEN (bytes ''/tmp''))]\<rparr>)
     \<lparr>pid_tgid = 0x25800000258, get_current_comm = 0\<rparr>
     \<lparr>f_path = Some (bytes ''/tmp/x'')\<rparr> 0 = - EPERM"
proof -
  let ?m = "one_container 6 POLICY_LEVEL_RESTRICTED 600
        \<lparr>ap_acc_restr := [(0, char_array PATH_LEN (bytes ''/tmp''))]\<rparr>"
  let ?c = "\<lparr>pid_tgid = 0x25800000258, get_current_comm = 0\<rparr>"
  have lv: "get_policy_level ?m (current_pid ?c) = POLICY_LEVEL_RESTRICTED"
    by (simp add: get_policy_level_def one_container_def empty_maps_def current_pid_def)
  have dp: "dp_acc_restr ?m = []"
    by (simp add: one_container_def empty_maps_def)
  have pre: "prefix (entry_string (char_array PATH_LEN (bytes ''/tmp''))) (bytes ''/tmp/x'')"
    by (simp add: entry_string_def char_array_def PATH_LEN_def cstr_def bytes_def)
  have "open_policy ?m POLICY_LEVEL_RESTRICTED \<lparr>f_path = Some (bytes ''/tmp/x'')\<rparr> = - EPERM"
    unfolding open_policy_eq by (simp add: cstr_def bytes_def PATH_LEN_def)
  then have "open_audit ?m ?c \<lparr>f_path = Some (bytes ''/tmp/x'')\<rparr> 0 = - EPERM"
    by (simp add: open_audit_def open_ret_def lv out_def EPERM_def)
  with lv dp pre show ?thesis by simp
qed

section \<open>The previous verdict and the tiers that pass\<close>

text \<open>
  Outside the failed read of the command name in the setuid hook, every hook returns a
  previous verdict that is not 0, and its own verdict otherwise.
\<close>

lemma stacking_law:
  "syslog_audit maps cur type ret_prev =
     (if ret_prev \<noteq> 0 then ret_prev else syslog_audit maps cur type 0)"
  "mount_audit maps cur ts ds dev_name mtype ret_prev =
     (if ret_prev \<noteq> 0 then ret_prev else mount_audit maps cur ts ds dev_name mtype 0)"
  "open_audit maps cur f ret_prev =
     (if ret_prev \<noteq> 0 then ret_prev else open_audit maps cur f 0)"
  "\<not> get_current_comm cur < 0 \<Longrightarrow>
   setuid_audit maps cur new old flags ret_prev =
     (if ret_prev \<noteq> 0 then ret_prev else setuid_audit maps cur new old flags 0)"
  by (simp_all add: syslog_audit_def mount_audit_def open_audit_def setuid_audit_def out_def)

text \<open>
  C2 does not hold of the code. The setuid hook, called with the previous verdict -13
  by a task whose command name cannot be read (\<^verbatim>\<open>bpf_get_current_comm\<close> gives -22),
  returns -14 (\<^verbatim>\<open>-EFAULT\<close>), not -13: that \<^verbatim>\<open>return\<close> does not go through \<^verbatim>\<open>out\<close>.
\<close>

theorem setuid_comm_failure_ignores_ret_prev:
  "setuid_audit (one_container 5 POLICY_LEVEL_BASELINE 500)
     \<lparr>pid_tgid = 0x1F4000001F4, get_current_comm = - 22\<rparr>
     \<lparr>uid = 1002\<rparr> \<lparr>uid = 1001\<rparr> 0 (- 13) = - 14"
  by (simp add: setuid_audit_def EFAULT_def)

text \<open>
  Outside that same read, a privileged task and a task without a row in \<^verbatim>\<open>processes\<close>
  are allowed by every hook, whatever the path tables hold.
\<close>

lemma passthrough:
  assumes "get_policy_level maps (current_pid cur) = POLICY_LEVEL_PRIVILEGED
           \<or> processes maps (current_pid cur) = None"
  shows "syslog_audit maps cur type 0 = 0"
    and "mount_audit maps cur ts ds dev_name mtype 0 = 0"
    and "open_audit maps cur f 0 = 0"
    and "\<not> get_current_comm cur < 0 \<Longrightarrow> setuid_audit maps cur new old flags 0 = 0"
proof -
  from assms have "get_policy_level maps (current_pid cur) = POLICY_LEVEL_PRIVILEGED
     \<or> get_policy_level maps (current_pid cur) = POLICY_LEVEL_NOT_FOUND"
    by (auto simp: get_policy_level_def)
  then show "syslog_audit maps cur type 0 = 0"
    and "mount_audit maps cur ts ds dev_name mtype 0 = 0"
    and "open_audit maps cur f 0 = 0"
    and "\<not> get_current_comm cur < 0 \<Longrightarrow> setuid_audit maps cur new old flags 0 = 0"
    by (auto simp: syslog_audit_def mount_audit_def mount_ret_def open_audit_def open_ret_def
        setuid_audit_def setuid_ret_def out_def)
qed

text \<open>
  C3 does not hold of the code. With the previous verdict 0, the setuid hook returns
  -14 (\<^verbatim>\<open>-EFAULT\<close>) to a privileged task (pid 200) and to a task without a row in
  \<^verbatim>\<open>processes\<close> when the command name cannot be read: the read comes before the switch
  on the policy level.
\<close>

theorem setuid_comm_failure_privileged_and_host:
  "get_policy_level (one_container 2 POLICY_LEVEL_PRIVILEGED 200)
      (current_pid \<lparr>pid_tgid = 0xC8000000C8, get_current_comm = - 22\<rparr>)
     = POLICY_LEVEL_PRIVILEGED
   \<and> setuid_audit (one_container 2 POLICY_LEVEL_PRIVILEGED 200)
       \<lparr>pid_tgid = 0xC8000000C8, get_current_comm = - 22\<rparr>
       \<lparr>uid = 1002\<rparr> \<lparr>uid = 1001\<rparr> 0 0 = - 14
   \<and> processes empty_maps (current_pid \<lparr>pid_tgid = 0xC8000000C8, get_current_comm = - 22\<rparr>)
     = None
   \<and> setuid_audit empty_maps
       \<lparr>pid_tgid = 0xC8000000C8, get_current_comm = - 22\<rparr>
       \<lparr>uid = 1002\<rparr> \<lparr>uid = 1001\<rparr> 0 0 = - 14"
  by (simp add: setuid_audit_def EFAULT_def get_policy_level_def one_container_def
      empty_maps_def current_pid_def)

section \<open>The setuid hook\<close>

text \<open>
  C9 (as the code has it). A setuid call with the previous verdict 0 by a task whose
  command name can be read: \<^verbatim>\<open>-EPERM\<close> when the tier is restricted or baseline, the new
  uid is 0 and the old uid is at least 1000; \<^verbatim>\<open>-EPERM\<close> also when the task's row names
  a container that does not exist (lookup error); 0 in every other case, the
  privileged tier and tasks without a row among them.
\<close>

theorem setuid_decision:
  assumes "\<not> get_current_comm cur < 0"
  shows "setuid_audit maps cur new old flags 0 =
     (if (get_policy_level maps (current_pid cur) = POLICY_LEVEL_RESTRICTED
          \<or> get_policy_level maps (current_pid cur) = POLICY_LEVEL_BASELINE)
         \<and> uid new = 0 \<and> 1000 \<le> uid old then - EPERM
      else if get_policy_level maps (current_pid cur) = POLICY_LEVEL_LOOKUP_ERR then - EPERM
      else 0)"
  using assms
  by (auto simp: setuid_audit_def setuid_ret_def out_def Let_def
      split: container_policy_level.splits)

theorem setuid_decision_witness:
  "setuid_audit (one_container 5 POLICY_LEVEL_BASELINE 500)
     \<lparr>pid_tgid = 0x1F4000001F4, get_current_comm = 0\<rparr> \<lparr>uid = 0\<rparr> \<lparr>uid = 1000\<rparr> 0 0 = - EPERM
   \<and> setuid_audit (one_container 5 POLICY_LEVEL_BASELINE 500)
     \<lparr>pid_tgid = 0x1F4000001F4, get_current_comm = 0\<rparr> \<lparr>uid = 1002\<rparr> \<lparr>uid = 1001\<rparr> 0 0 = 0"
  using
    setuid_decision [of "\<lparr>pid_tgid = 0x1F4000001F4, get_current_comm = 0\<rparr>"
      "one_container 5 POLICY_LEVEL_BASELINE 500" "\<lparr>uid = 0\<rparr>" "\<lparr>uid = 1000\<rparr>" 0]
    setuid_decision [of "\<lparr>pid_tgid = 0x1F4000001F4, get_current_comm = 0\<rparr>"
      "one_container 5 POLICY_LEVEL_BASELINE 500" "\<lparr>uid = 1002\<rparr>" "\<lparr>uid = 1001\<rparr>" 0]
  by (simp add: get_policy_level_def one_container_def empty_maps_def current_pid_def)

text \<open>
  C9 as stated fails on a lookup error: pid 500 has a row that names container 5, no
  such container exists, the uids are 1001 and 1002; the case is none of those C9
  denies, and the hook returns \<^verbatim>\<open>-EPERM\<close>.
\<close>

theorem setuid_lookup_err_denied:
  "get_policy_level (empty_maps\<lparr>processes := [500 \<mapsto> \<lparr>container_id = 5\<rparr>]\<rparr>)
     (current_pid \<lparr>pid_tgid = 0x1F4000001F4, get_current_comm = 0\<rparr>) = POLICY_LEVEL_LOOKUP_ERR
   \<and> setuid_audit (empty_maps\<lparr>processes := [500 \<mapsto> \<lparr>container_id = 5\<rparr>]\<rparr>)
     \<lparr>pid_tgid = 0x1F4000001F4, get_current_comm = 0\<rparr> \<lparr>uid = 1002\<rparr> \<lparr>uid = 1001\<rparr> 0 0
     = - EPERM
   \<and> - EPERM \<noteq> (0 :: int)"
  by (simp add: setuid_audit_def setuid_ret_def out_def get_policy_level_def empty_maps_def
      current_pid_def EPERM_def)

text \<open>
  C10. When the read of the command name fails, the setuid hook returns \<^verbatim>\<open>-EFAULT\<close>,
  whatever the maps (so for every tier and for tasks without a row), the credentials
  and the previous verdict are.
\<close>

theorem setuid_comm_failure:
  "get_current_comm cur < 0 \<Longrightarrow> setuid_audit maps cur new old flags ret_prev = - EFAULT"
  by (simp add: setuid_audit_def)

theorem setuid_comm_failure_witness:
  "get_current_comm \<lparr>pid_tgid = 0xC8000000C8, get_current_comm = - 22\<rparr> < 0
   \<and> setuid_audit (one_container 2 POLICY_LEVEL_PRIVILEGED 200)
       \<lparr>pid_tgid = 0xC8000000C8, get_current_comm = - 22\<rparr>
       \<lparr>uid = 0\<rparr> \<lparr>uid = 1000\<rparr> 0 (- 13) = - EFAULT"
  using setuid_comm_failure [of "\<lparr>pid_tgid = 0xC8000000C8, get_current_comm = - 22\<rparr>"
      "one_container 2 POLICY_LEVEL_PRIVILEGED 200" "\<lparr>uid = 0\<rparr>" "\<lparr>uid = 1000\<rparr>" 0 "- 13"]
  by simp

section \<open>The process tracker\<close>

lemma handle_child_bound:
  "processes maps (task_pid child) \<noteq> None \<Longrightarrow>
   handle_new_process maps kerr parent child = (0, maps)"
  by (auto simp: handle_new_process_def Let_def split: option.splits)

lemma handle_success_binds:
  assumes "handle_new_process maps kerr parent child = (0, maps')"
  shows "processes maps (task_pid parent) = None \<and> maps' = maps
         \<or> processes maps' (task_pid parent) \<noteq> None \<and> processes maps' (task_pid child) \<noteq> None"
  using assms
  by (auto simp: handle_new_process_def Let_def bpf_map_update_elem_def EPERM_def
      split: option.splits if_splits)

text \<open>
  C7. When \<^verbatim>\<open>processes\<close> already has a row for the child, \<^verbatim>\<open>handle_new_process\<close> returns
  0 and leaves every map as it is; and after a call that returned 0, the same call
  again returns 0 and changes nothing, whatever the kernel would answer to an insert.
\<close>

theorem lineage_idempotent:
  "(processes maps (task_pid child) \<noteq> None \<longrightarrow>
      handle_new_process maps kerr parent child = (0, maps))
   \<and> (handle_new_process maps kerr parent child = (0, maps') \<longrightarrow>
      handle_new_process maps' kerr' parent child = (0, maps'))"
proof (intro conjI impI)
  assume "processes maps (task_pid child) \<noteq> None"
  then show "handle_new_process maps kerr parent child = (0, maps)"
    by (rule handle_child_bound)
next
  assume "handle_new_process maps kerr parent child = (0, maps')"
  from handle_success_binds [OF this]
  show "handle_new_process maps' kerr' parent child = (0, maps')"
  proof
    assume "processes maps (task_pid parent) = None \<and> maps' = maps"
    then show ?thesis by (simp add: handle_new_process_def)
  next
    assume "processes maps' (task_pid parent) \<noteq> None
      \<and> processes maps' (task_pid child) \<noteq> None"
    then show ?thesis by (simp add: handle_child_bound)
  qed
qed

theorem lineage_idempotent_witness:
  "processes (one_container 1 POLICY_LEVEL_BASELINE 100) 101 = None
   \<and> handle_new_process (one_container 1 POLICY_LEVEL_BASELINE 100) 0
       \<lparr>task_pid = 100\<rparr> \<lparr>task_pid = 101\<rparr>
     = (0, one_container 1 POLICY_LEVEL_BASELINE 100
            \<lparr>processes := [100 \<mapsto> \<lparr>container_id = 1\<rparr>, 101 \<mapsto> \<lparr>container_id = 1\<rparr>]\<rparr>)
   \<and> handle_new_process
       (one_container 1 POLICY_LEVEL_BASELINE 100
            \<lparr>processes := [100 \<mapsto> \<lparr>container_id = 1\<rparr>, 101 \<mapsto> \<lparr>container_id = 1\<rparr>]\<rparr>) 0
       \<lparr>task_pid = 100\<rparr> \<lparr>task_pid = 101\<rparr>
     = (0, one_container 1 POLICY_LEVEL_BASELINE 100
            \<lparr>processes := [100 \<mapsto> \<lparr>container_id = 1\<rparr>, 101 \<mapsto> \<lparr>container_id = 1\<rparr>]\<rparr>)"
proof -
  let ?m = "one_container 1 POLICY_LEVEL_BASELINE 100"
  let ?m' = "?m\<lparr>processes := [100 \<mapsto> \<lparr>container_id = 1\<rparr>, 101 \<mapsto> \<lparr>container_id = 1\<rparr>]\<rparr>"
  have a: "processes ?m 101 = None"
    by (simp add: one_container_def empty_maps_def)
  have b: "handle_new_process ?m 0 \<lparr>task_pid = 100\<rparr> \<lparr>task_pid = 101\<rparr> = (0, ?m')"
    by (simp add: handle_new_process_def bpf_map_update_elem_def one_container_def
        empty_maps_def)
  from lineage_idempotent [of ?m "\<lparr>task_pid = 101\<rparr>" 0 "\<lparr>task_pid = 100\<rparr>" ?m' 0] b
  have "handle_new_process ?m' 0 \<lparr>task_pid = 100\<rparr> \<lparr>task_pid = 101\<rparr> = (0, ?m')"
    by blast
  with a b show ?thesis by simp
qed

text \<open>
  C8 (as the code has it). When \<^verbatim>\<open>processes\<close> has a row for the parent and \<^verbatim>\<open>containers\<close>
  has none for the container that row names, \<^verbatim>\<open>handle_new_process\<close> leaves every map
  as it is, so it inserts no row for the child; it returns \<^verbatim>\<open>-EPERM\<close> when the child
  has no row, and 0 when the child already has one (that check comes first).
\<close>

theorem lineage_missing_container:
  assumes "processes maps (task_pid parent) = Some pr"
    and "containers maps (container_id pr) = None"
  shows "handle_new_process maps kerr parent child =
           (if processes maps (task_pid child) = None then - EPERM else 0, maps)"
  using assms
  by (auto simp: handle_new_process_def Let_def split: option.splits)

theorem lineage_missing_container_witness:
  "handle_new_process (empty_maps\<lparr>processes := [100 \<mapsto> \<lparr>container_id = 7\<rparr>]\<rparr>) 0
     \<lparr>task_pid = 100\<rparr> \<lparr>task_pid = 101\<rparr>
   = (- EPERM, empty_maps\<lparr>processes := [100 \<mapsto> \<lparr>container_id = 7\<rparr>]\<rparr>)"
  using lineage_missing_container [of "empty_maps\<lparr>processes := [100 \<mapsto> \<lparr>container_id = 7\<rparr>]\<rparr>"
      "\<lparr>task_pid = 100\<rparr>" "\<lparr>container_id = 7\<rparr>" 0 "\<lparr>task_pid = 101\<rparr>"]
  by (simp add: empty_maps_def)

text \<open>
  C8 as stated fails when the child already has a row: parent 100 and child 101 both
  name container 7, which does not exist; the call returns 0, not \<^verbatim>\<open>-EPERM\<close>, and the
  child stays bound.
\<close>

theorem lineage_bound_child_succeeds:
  "processes (empty_maps\<lparr>processes := [100 \<mapsto> \<lparr>container_id = 7\<rparr>, 101 \<mapsto> \<lparr>container_id = 7\<rparr>]\<rparr>)
     (task_pid \<lparr>task_pid = 100\<rparr>) = Some \<lparr>container_id = 7\<rparr>
   \<and> containers (empty_maps\<lparr>processes := [100 \<mapsto> \<lparr>container_id = 7\<rparr>, 101 \<mapsto> \<lparr>container_id = 7\<rparr>]\<rparr>)
       7 = None
   \<and> fst (handle_new_process
       (empty_maps\<lparr>processes := [100 \<mapsto> \<lparr>container_id = 7\<rparr>, 101 \<mapsto> \<lparr>container_id = 7\<rparr>]\<rparr>) 0
       \<lparr>task_pid = 100\<rparr> \<lparr>task_pid = 101\<rparr>) = 0
   \<and> processes (snd (handle_new_process
       (empty_maps\<lparr>processes := [100 \<mapsto> \<lparr>container_id = 7\<rparr>, 101 \<mapsto> \<lparr>container_id = 7\<rparr>]\<rparr>) 0
       \<lparr>task_pid = 100\<rparr> \<lparr>task_pid = 101\<rparr>)) 101 = Some \<lparr>container_id = 7\<rparr>"
  by (simp add: handle_new_process_def empty_maps_def)

end
